theory Spec2Isabelle
  imports Complex_Main "HOL-Library.Signed_Division"
begin

section \<open>Vectors\<close>

text \<open>
  The game computes with three.js \<open>Vector3\<close> values. JavaScript numbers are idealised
  as real numbers: every arithmetic step below is the exact operation whose rounded
  result the program computes.
\<close>

datatype vec3 = Vector3 (vx: real) (vy: real) (vz: real)

definition subVectors :: "vec3 \<Rightarrow> vec3 \<Rightarrow> vec3" where
  "subVectors a b = Vector3 (vx a - vx b) (vy a - vy b) (vz a - vz b)"

definition addVector :: "vec3 \<Rightarrow> vec3 \<Rightarrow> vec3" where
  "addVector a b = Vector3 (vx a + vx b) (vy a + vy b) (vz a + vz b)"

definition multiplyScalar :: "vec3 \<Rightarrow> real \<Rightarrow> vec3" where
  "multiplyScalar v k = Vector3 (vx v * k) (vy v * k) (vz v * k)"

definition divideScalar :: "vec3 \<Rightarrow> real \<Rightarrow> vec3" where
  "divideScalar v k = multiplyScalar v (1 / k)"

definition lengthV :: "vec3 \<Rightarrow> real" where
  "lengthV v = sqrt (vx v * vx v + vy v * vy v + vz v * vz v)"

text \<open>\<open>normalize\<close> divides by \<open>length() || 1\<close>: the zero vector stays the zero vector.\<close>

definition normalize :: "vec3 \<Rightarrow> vec3" where
  "normalize v = divideScalar v (if lengthV v = 0 then 1 else lengthV v)"

definition distanceTo :: "vec3 \<Rightarrow> vec3 \<Rightarrow> real" where
  "distanceTo a b =
     sqrt ((vx a - vx b) * (vx a - vx b) + (vy a - vy b) * (vy a - vy b)
           + (vz a - vz b) * (vz a - vz b))"

section \<open>Level configurations\<close>

text \<open>
  The fields of a level object; \<open>description\<close> and \<open>icon\<close> are only displayed and are
  left out. \<open>spawnRange\<close> is the object \<open>{x, y, z}\<close>. Colours are the numbers the source
  writes in hexadecimal.
\<close>

record level_config =
  name :: string
  targetCount :: nat
  targetSpeed :: real
  targetSize :: real
  gameTime :: int
  spawnRange :: vec3
  color :: nat
  collisionDistance :: real

definition beginner :: level_config where
  "beginner = \<lparr> name = ''Beginner'', targetCount = 5, targetSpeed = 5 / 100,
     targetSize = 18 / 10, gameTime = 90, spawnRange = Vector3 15 5 40,
     color = 65280, collisionDistance = 3 \<rparr>"

definition intermediate :: level_config where
  "intermediate = \<lparr> name = ''Intermediate'', targetCount = 15, targetSpeed = 10 / 100,
     targetSize = 32 / 10, gameTime = 60, spawnRange = Vector3 30 10 80,
     color = 16753920, collisionDistance = 3 \<rparr>"

definition professional :: level_config where
  "professional = \<lparr> name = ''Professional'', targetCount = 25, targetSpeed = 15 / 100,
     targetSize = 2, gameTime = 30, spawnRange = Vector3 40 15 100,
     color = 16711680, collisionDistance = 3 \<rparr>"

section \<open>Targets\<close>

text \<open>
  A target owns a mesh (a handle \<open>mesh\<close>, with the mesh's position, rotation and material
  colour), its speed and the level configuration it was built with. The three values
  \<open>Math.random()\<close> returns during one \<open>respawn\<close> are an explicit argument, in call order.
\<close>

type_synonym draws = "real \<times> real \<times> real"

record target =
  mesh :: nat
  position :: vec3
  rotation_x :: real
  rotation_y :: real
  material_color :: nat
  speed :: real
  levelConfig :: level_config

definition spawnPosition :: "level_config \<Rightarrow> draws \<Rightarrow> vec3" where
  "spawnPosition lc d =
     (case d of (r1, r2, r3) \<Rightarrow>
        Vector3 ((r1 - 5 / 10) * vx (spawnRange lc) * 2)
                (r2 * vy (spawnRange lc) + 1)
                (- r3 * vz (spawnRange lc) - 5))"

definition respawn :: "level_config \<Rightarrow> draws \<Rightarrow> target \<Rightarrow> target" where
  "respawn lc d t = t\<lparr> position := spawnPosition lc d, speed := targetSpeed lc \<rparr>"

text \<open>The constructor: a fresh mesh of the level's colour, placed by \<open>respawn\<close>.\<close>

definition newTarget :: "nat \<Rightarrow> level_config \<Rightarrow> draws \<Rightarrow> target" where
  "newTarget m lc d =
     respawn lc d \<lparr> mesh = m, position = Vector3 0 0 0, rotation_x = 0, rotation_y = 0,
                    material_color = color lc, speed = 0, levelConfig = lc \<rparr>"

text \<open>The position after the move of \<open>update\<close>, before the respawn test.\<close>

definition moved :: "vec3 \<Rightarrow> target \<Rightarrow> vec3" where
  "moved cameraPosition t =
     addVector (position t)
       (multiplyScalar (normalize (subVectors cameraPosition (position t))) (speed t))"

definition respawnCondition :: "vec3 \<Rightarrow> vec3 \<Rightarrow> bool" where
  "respawnCondition p cameraPosition \<longleftrightarrow> distanceTo p cameraPosition < 1 \<or> vz p > 0"

definition update :: "vec3 \<Rightarrow> level_config \<Rightarrow> draws \<Rightarrow> target \<Rightarrow> target" where
  "update cameraPosition lc d t =
     (let t1 = t\<lparr> position := moved cameraPosition t,
                  rotation_x := rotation_x t + 1 / 100,
                  rotation_y := rotation_y t + 1 / 100 \<rparr>
      in if respawnCondition (position t1) cameraPosition then respawn lc d t1 else t1)"

definition checkCollision :: "target \<Rightarrow> vec3 \<Rightarrow> bool" where
  "checkCollision t cameraPosition \<longleftrightarrow>
     distanceTo (position t) cameraPosition < collisionDistance (levelConfig t)"

text \<open>The box \<open>respawn\<close> draws from, for a level with spawn range \<open>(x, y, z)\<close>.\<close>

definition inSpawnVolume :: "level_config \<Rightarrow> vec3 \<Rightarrow> bool" where
  "inSpawnVolume lc p \<longleftrightarrow>
     - vx (spawnRange lc) \<le> vx p \<and> vx p \<le> vx (spawnRange lc) \<and>
     1 \<le> vy p \<and> vy p \<le> vy (spawnRange lc) + 1 \<and>
     - vz (spawnRange lc) - 5 \<le> vz p \<and> vz p \<le> - 5"

definition unitDraws :: "draws \<Rightarrow> bool" where
  "unitDraws d \<longleftrightarrow>
     (case d of (r1, r2, r3) \<Rightarrow> 0 \<le> r1 \<and> r1 < 1 \<and> 0 \<le> r2 \<and> r2 < 1 \<and> 0 \<le> r3 \<and> r3 < 1)"

definition positiveRange :: "level_config \<Rightarrow> bool" where
  "positiveRange lc \<longleftrightarrow>
     0 < vx (spawnRange lc) \<and> 0 < vy (spawnRange lc) \<and> 0 < vz (spawnRange lc)"

section \<open>Game state\<close>

text \<open>
  \<open>formatTime\<close>: \<open>Math.floor(seconds / 60)\<close>, the remainder \<open>seconds % 60\<close> (which has the
  sign of \<open>seconds\<close>), and the decimal rendering of both.
\<close>

function showNat :: "nat \<Rightarrow> string" where
  "showNat n = (if n < 10 then [char_of (48 + n)]
                else showNat (n div 10) @ [char_of (48 + n mod 10)])"
  by pat_completeness auto
termination
  by (relation "measure id") auto

declare showNat.simps [simp del]

definition showInt :: "int \<Rightarrow> string" where
  "showInt k = (if k < 0 then CHR ''-'' # showNat (nat (- k)) else showNat (nat k))"

definition formatTime :: "int \<Rightarrow> string" where
  "formatTime seconds =
     (let mins = seconds div 60; secs = seconds smod 60
      in showInt mins @ '':'' @ (if secs < 10 then ''0'' else []) @ showInt secs)"

text \<open>
  Callbacks registered with \<open>setTimeout\<close>: the alert of \<open>endGame\<close> (time is up) or of
  \<open>handleCollision\<close> (hit by a target), and the colour reset and respawn of a hit mesh.
  Each is kept with its delay in milliseconds until it fires.
\<close>

datatype reason = TimesUp | HitByTarget

datatype timeout_action = GameOverAlert reason | RestoreAndRespawn nat

text \<open>An alert shown: which message, the final score and the level name it printed.\<close>

datatype alert = Alert reason int string

text \<open>
  \<open>shootSounds\<close> is the array of loaded sounds (here its length) or, after a load error,
  the fallback object with a \<open>play\<close> method.
\<close>

datatype sounds = SoundArray nat | FallbackSound

text \<open>
  The mutable state of \<open>main.js\<close>: the fields of \<open>gameState\<close>, \<open>controls.isLocked\<close>,
  \<open>camera.position\<close>, the \<open>targets\<close> array, the timers that are registered (countdown
  intervals by their ids, the number of \<open>updateTimer\<close> intervals, pending timeouts), the
  sound pool, and what the UI manager shows: which elements are displayed, and the values
  last passed to \<open>updateScore\<close>, \<open>updateTimer\<close> and \<open>updateCountdown\<close>. Alerts are
  collected in the order they were shown.
\<close>

record world =
  currentLevel :: level_config
  score :: int
  timeLeft :: int
  isPlaying :: bool
  isCountdown :: bool
  countdown :: int
  isLocked :: bool
  camera_position :: vec3
  targets :: "target list"
  nextMesh :: nat
  countdownIntervals :: "nat list"
  nextTimerId :: nat
  matchTimers :: nat
  timeouts :: "(nat \<times> timeout_action) list"
  shootSounds :: sounds
  currentSoundIndex :: nat
  soundsPlayed :: nat
  levelSelectorShown :: bool
  countdownShown :: bool
  crosshairShown :: bool
  scoreText :: int
  timerText :: string
  countdownText :: int
  alerts :: "alert list"

text \<open>
  The state once the module has been loaded: \<open>gameState\<close> as initialised, the camera at the
  origin, no targets, and the one \<open>setInterval(updateTimer, 1000)\<close> registered.
\<close>

definition initial :: world where
  "initial = \<lparr> currentLevel = beginner, score = 0, timeLeft = 0, isPlaying = False,
     isCountdown = False, countdown = 3, isLocked = False,
     camera_position = Vector3 0 0 0, targets = [], nextMesh = 0,
     countdownIntervals = [], nextTimerId = 0, matchTimers = 1, timeouts = [],
     shootSounds = SoundArray 0, currentSoundIndex = 0, soundsPlayed = 0,
     levelSelectorShown = True, countdownShown = False, crosshairShown = False,
     scoreText = 0, timerText = ''0:00'', countdownText = 0, alerts = [] \<rparr>"

section \<open>Match control\<close>

text \<open>
  \<open>createTargets\<close> drops the old targets and builds \<open>targetCount\<close> new ones, each with a
  fresh mesh; \<open>rnd i\<close> are the draws of the \<open>i\<close>-th constructor call.
\<close>

definition createTargets :: "level_config \<Rightarrow> (nat \<Rightarrow> draws) \<Rightarrow> world \<Rightarrow> world" where
  "createTargets lc rnd s =
     s\<lparr> targets := map (\<lambda>i. newTarget (nextMesh s + i) lc (rnd i)) [0..<targetCount lc],
        nextMesh := nextMesh s + targetCount lc \<rparr>"

text \<open>
  \<open>startCountdown\<close> registers a new countdown interval; the interval's callback is
  \<open>countdownTick\<close> below, with the id \<open>setInterval\<close> returned.
\<close>

definition startCountdown :: "level_config \<Rightarrow> (nat \<Rightarrow> draws) \<Rightarrow> world \<Rightarrow> world" where
  "startCountdown level rnd s =
     (let s1 = s\<lparr> currentLevel := level, score := 0, timeLeft := gameTime level,
                  isCountdown := True, countdown := 5 \<rparr>;
          s2 = s1\<lparr> scoreText := 0, timerText := formatTime (timeLeft s1),
                   levelSelectorShown := False, countdownShown := True,
                   countdownText := countdown s1 \<rparr>;
          s3 = createTargets level rnd s2
      in s3\<lparr> countdownIntervals := countdownIntervals s3 @ [nextTimerId s3],
             nextTimerId := nextTimerId s3 + 1 \<rparr>)"

text \<open>
  One firing of the countdown interval with id \<open>i\<close>. An interval that has been cleared
  does not fire.
\<close>

definition countdownTick :: "nat \<Rightarrow> world \<Rightarrow> world" where
  "countdownTick i s =
     (if i \<notin> set (countdownIntervals s) then s
      else let s1 = s\<lparr> countdown := countdown s - 1 \<rparr>;
               s2 = s1\<lparr> countdownText := countdown s1 \<rparr>
           in if countdown s2 \<le> 0
              then s2\<lparr> countdownIntervals := filter (\<lambda>j. j \<noteq> i) (countdownIntervals s2),
                       countdownShown := False, isPlaying := True, crosshairShown := True \<rparr>
              else s2)"

text \<open>
  \<open>controls.unlock()\<close> and \<open>controls.lock()\<close> only ask the browser to change the pointer
  lock; \<open>isLocked\<close> changes when the browser reports the change (\<open>pointerLock\<close> and
  \<open>pointerUnlock\<close> below).
\<close>

definition endGame :: "world \<Rightarrow> world" where
  "endGame s =
     s\<lparr> isPlaying := False, crosshairShown := False,
        timeouts := timeouts s @ [(500, GameOverAlert TimesUp)] \<rparr>"

definition updateTimer :: "world \<Rightarrow> world" where
  "updateTimer s =
     (if \<not> isPlaying s then s
      else let s1 = s\<lparr> timeLeft := timeLeft s - 1 \<rparr>;
               s2 = s1\<lparr> timerText := formatTime (timeLeft s1) \<rparr>
           in if timeLeft s2 \<le> 0 then endGame s2 else s2)"

definition selectLevel :: "level_config \<Rightarrow> (nat \<Rightarrow> draws) \<Rightarrow> world \<Rightarrow> world" where
  "selectLevel level rnd s = startCountdown level rnd s"

definition pointerLock :: "world \<Rightarrow> world" where
  "pointerLock s = s\<lparr> isLocked := True \<rparr>"

text \<open>The two \<open>unlock\<close> listeners, in the order they were added.\<close>

definition pointerUnlock :: "world \<Rightarrow> world" where
  "pointerUnlock s =
     (let s1 = s\<lparr> isLocked := False \<rparr>;
          s2 = (if isPlaying s1
                then s1\<lparr> isPlaying := False, crosshairShown := False,
                         levelSelectorShown := True \<rparr>
                else s1)
      in if isPlaying s2 then s2\<lparr> isPlaying := False \<rparr> else s2)"

section \<open>Shooting\<close>

definition playShootSound :: "world \<Rightarrow> world" where
  "playShootSound s =
     (case shootSounds s of
        SoundArray n \<Rightarrow>
          if n = 0 then s
          else s\<lparr> currentSoundIndex := (currentSoundIndex s + 1) mod n,
                  soundsPlayed := soundsPlayed s + 1 \<rparr>
      | FallbackSound \<Rightarrow> s\<lparr> soundsPlayed := soundsPlayed s + 1 \<rparr>)"

definition setColor :: "nat \<Rightarrow> nat \<Rightarrow> target \<Rightarrow> target" where
  "setColor m c t = (if mesh t = m then t\<lparr> material_color := c \<rparr> else t)"

text \<open>
  The click listener. \<open>intersects\<close> is the result of the ray cast against the meshes of
  the current targets: the meshes hit, nearest first.
\<close>

definition click :: "nat list \<Rightarrow> world \<Rightarrow> world" where
  "click intersects s =
     (if \<not> isPlaying s \<or> \<not> isLocked s then s
      else let s1 = playShootSound s
           in case intersects of
                [] \<Rightarrow> s1
              | hitTarget # _ \<Rightarrow>
                  (let s2 = s1\<lparr> targets := map (setColor hitTarget 16777215) (targets s1),
                               score := score s1 + 1 \<rparr>;
                       s3 = s2\<lparr> scoreText := score s2 \<rparr>
                   in s3\<lparr> timeouts := timeouts s3 @ [(200, RestoreAndRespawn hitTarget)] \<rparr>))"

text \<open>
  The delayed callback of a hit: the mesh gets the level's colour back, and the first
  target that owns the mesh (\<open>targets.find\<close>), if there is one, respawns.
\<close>

fun respawnFound :: "nat \<Rightarrow> level_config \<Rightarrow> draws \<Rightarrow> target list \<Rightarrow> target list" where
  "respawnFound m lc d [] = []"
| "respawnFound m lc d (t # ts) =
     (if mesh t = m then respawn lc d t # ts else t # respawnFound m lc d ts)"

definition fireTimeout :: "timeout_action \<Rightarrow> draws \<Rightarrow> world \<Rightarrow> world" where
  "fireTimeout a d s =
     (case a of
        GameOverAlert r \<Rightarrow>
          s\<lparr> alerts := alerts s @ [Alert r (score s) (name (currentLevel s))],
             levelSelectorShown := True \<rparr>
      | RestoreAndRespawn hitTarget \<Rightarrow>
          s\<lparr> targets := respawnFound hitTarget (currentLevel s) d
                          (map (setColor hitTarget (color (currentLevel s))) (targets s)) \<rparr>)"

section \<open>The frame loop\<close>

definition handleCollision :: "target \<Rightarrow> world \<Rightarrow> target \<times> world" where
  "handleCollision t s =
     (t\<lparr> material_color := 16711680 \<rparr>,
      s\<lparr> isPlaying := False, crosshairShown := False,
         timeouts := timeouts s @ [(500, GameOverAlert HitByTarget)] \<rparr>)"

text \<open>
  The callback \<open>animate\<close> passes to \<open>targets.forEach\<close>, for the target at index \<open>i\<close>; its
  \<open>return\<close> ends this call only.
\<close>

definition perTarget :: "(nat \<Rightarrow> draws) \<Rightarrow> nat \<Rightarrow> target \<Rightarrow> world \<Rightarrow> target \<times> world" where
  "perTarget rnd i t s =
     (let t1 = update (camera_position s) (currentLevel s) (rnd i) t
      in if checkCollision t1 (camera_position s) then handleCollision t1 s else (t1, s))"

fun forEachTarget :: "(nat \<Rightarrow> draws) \<Rightarrow> nat \<Rightarrow> target list \<Rightarrow> world \<Rightarrow> target list \<times> world" where
  "forEachTarget rnd i [] s = ([], s)"
| "forEachTarget rnd i (t # ts) s =
     (case perTarget rnd i t s of
        (t1, s1) \<Rightarrow> (case forEachTarget rnd (Suc i) ts s1 of
                       (ts1, s2) \<Rightarrow> (t1 # ts1, s2)))"

definition animate :: "(nat \<Rightarrow> draws) \<Rightarrow> world \<Rightarrow> world" where
  "animate rnd s =
     (if isPlaying s
      then (case forEachTarget rnd 0 (targets s) s of (ts, s1) \<Rightarrow> s1\<lparr> targets := ts \<rparr>)
      else s)"

section \<open>Events\<close>

text \<open>
  Everything that runs after loading is one of these callbacks: a level button, the
  browser reporting pointer lock or unlock, a firing of a countdown interval or of the
  match timer, an animation frame, a click, or a pending timeout coming due. Frames,
  level selections and timeouts carry the draws of \<open>Math.random\<close> they consume, and a
  click carries the result of its ray cast. Time itself is not part of the state: the
  events may come in any order, and \<open>Timeout k\<close> fires the \<open>k\<close>-th pending timeout
  whatever its delay.
\<close>

datatype event =
    SelectLevel level_config "nat \<Rightarrow> draws"
  | PointerLock
  | PointerUnlock
  | CountdownTick nat
  | TimerTick
  | Frame "nat \<Rightarrow> draws"
  | Click "nat list"
  | Timeout nat draws

definition step :: "event \<Rightarrow> world \<Rightarrow> world" where
  "step e s =
     (case e of
        SelectLevel level rnd \<Rightarrow> selectLevel level rnd s
      | PointerLock \<Rightarrow> pointerLock s
      | PointerUnlock \<Rightarrow> pointerUnlock s
      | CountdownTick i \<Rightarrow> countdownTick i s
      | TimerTick \<Rightarrow> (if 0 < matchTimers s then updateTimer s else s)
      | Frame rnd \<Rightarrow> animate rnd s
      | Click intersects \<Rightarrow> click intersects s
      | Timeout k d \<Rightarrow>
          (if k < length (timeouts s)
           then fireTimeout (snd (timeouts s ! k)) d
                  (s\<lparr> timeouts := take k (timeouts s) @ drop (Suc k) (timeouts s) \<rparr>)
           else s))"

definition run :: "event list \<Rightarrow> world \<Rightarrow> world" where
  "run es s = foldl (\<lambda>s e. step e s) s es"

section \<open>Notions used in the statements\<close>

text \<open>
  The factor by which \<open>update\<close> scales the offset between camera and target: the move
  goes \<open>speed\<close> units along the unit direction, or nowhere when the target is at the camera.
\<close>

definition approach :: "vec3 \<Rightarrow> target \<Rightarrow> real" where
  "approach c t =
     1 - speed t / (if distanceTo (position t) c = 0 then 1 else distanceTo (position t) c)"

text \<open>
  What the frame loop does to the target at index \<open>j\<close>, and whether that target then
  reports a collision; \<open>collisionAlerts\<close> counts the targets of a list that do.
\<close>

definition advance :: "world \<Rightarrow> (nat \<Rightarrow> draws) \<Rightarrow> nat \<times> target \<Rightarrow> target" where
  "advance s rnd = (\<lambda>(j, t). update (camera_position s) (currentLevel s) (rnd j) t)"

definition reportsCollision :: "world \<Rightarrow> (nat \<Rightarrow> draws) \<Rightarrow> nat \<times> target \<Rightarrow> bool" where
  "reportsCollision s rnd jt \<longleftrightarrow> checkCollision (advance s rnd jt) (camera_position s)"

definition collisionAlerts :: "world \<Rightarrow> (nat \<Rightarrow> draws) \<Rightarrow> nat \<Rightarrow> target list \<Rightarrow> nat" where
  "collisionAlerts s rnd i ts = length (filter (reportsCollision s rnd) (enumerate i ts))"

section \<open>Example states\<close>

text \<open>
  A beginner match in which every draw of \<open>Math.random\<close> is \<open>(0.5, 0, 0)\<close>, so that all
  five targets spawn at \<open>(0, 1, -5)\<close>: after the level button and five firings of the
  countdown interval (\<open>afterCountdown\<close>), after the browser has then locked the pointer
  (\<open>aimed\<close>), after one hit and a release of the pointer (\<open>abandoned\<close>), and after the
  ninety timer ticks of a match nobody touches (\<open>timedOut\<close>).
\<close>

definition centred :: "nat \<Rightarrow> draws" where
  "centred i = (1 / 2, 0, 0)"

definition afterCountdown :: world where
  "afterCountdown =
     run [SelectLevel beginner centred, CountdownTick 0, CountdownTick 0, CountdownTick 0,
          CountdownTick 0, CountdownTick 0] initial"

definition aimed :: world where
  "aimed = step PointerLock afterCountdown"

definition abandoned :: world where
  "abandoned = run [Click [0], PointerUnlock] aimed"


text \<open>
  A running match with two targets at distance 3 from the camera, each on the ray from a
  point of the beginner spawn volume (\<open>(0, 5, -12)\<close> and \<open>(3, 4, -12)\<close>) to the origin.
\<close>

definition nearTarget :: "nat \<Rightarrow> vec3 \<Rightarrow> target" where
  "nearTarget m p = \<lparr> mesh = m, position = p, rotation_x = 2, rotation_y = 2,
     material_color = 65280, speed = 5 / 100, levelConfig = beginner \<rparr>"

definition closing :: world where
  "closing = aimed\<lparr> targets := [nearTarget 0 (Vector3 0 (15 / 13) (- (36 / 13))),
                               nearTarget 1 (Vector3 (9 / 13) (12 / 13) (- (36 / 13)))] \<rparr>"

text \<open>
  A freshly built beginner target at \<open>(0, 5, -12)\<close>; and a level like the beginner one but
  with target speed 10, with a freshly built target of it at \<open>(0, 1, -10)\<close>.
\<close>

definition approaching :: target where
  "approaching = newTarget 0 beginner (1 / 2, 4 / 5, 7 / 40)"

definition fast :: level_config where
  "fast = beginner\<lparr> name := ''Fast'', targetSpeed := 10 \<rparr>"

definition overshooting :: target where
  "overshooting = newTarget 0 fast (1 / 2, 0, 1 / 8)"

section \<open>Spawning\<close>

lemma spawnPosition_in_volume:
  assumes "positiveRange lc" and "unitDraws d"
  shows "inSpawnVolume lc (spawnPosition lc d)"
proof -
  obtain r1 r2 r3 where d: "d = (r1, r2, r3)" by (cases d) auto
  let ?x = "vx (spawnRange lc)" and ?y = "vy (spawnRange lc)" and ?z = "vz (spawnRange lc)"
  from assms d have r: "0 \<le> r1" "r1 < 1" "0 \<le> r2" "r2 < 1" "0 \<le> r3" "r3 < 1"
    and p: "0 < ?x" "0 < ?y" "0 < ?z"
    by (simp_all add: unitDraws_def positiveRange_def)
  have x1: "- ?x \<le> (r1 - 5 / 10) * ?x * 2" using r p by (simp add: algebra_simps)
  have "r1 * ?x \<le> 1 * ?x" using r p by (intro mult_right_mono) simp_all
  then have x2: "(r1 - 5 / 10) * ?x * 2 \<le> ?x" by (simp add: algebra_simps)
  have y1: "1 \<le> r2 * ?y + 1" using r p by simp
  have "r2 * ?y \<le> 1 * ?y" using r p by (intro mult_right_mono) simp_all
  then have y2: "r2 * ?y + 1 \<le> ?y + 1" by simp
  have "r3 * ?z \<le> 1 * ?z" using r p by (intro mult_right_mono) simp_all
  then have z1: "- ?z - 5 \<le> - r3 * ?z - 5" by simp
  have z2: "- r3 * ?z - 5 \<le> - 5" using r p by simp
  show ?thesis
    using x1 x2 y1 y2 z1 z2 by (simp add: inSpawnVolume_def spawnPosition_def d)
qed

text \<open>
  C3. For a level whose spawn range has positive fields and for draws of \<open>Math.random\<close>
  in \<open>[0, 1)\<close>, both the constructor and \<open>respawn\<close> put the target at a position whose
  \<open>z\<close> is strictly negative and lies in \<open>[- range.z - 5, - 5]\<close>, whose \<open>x\<close> lies in
  \<open>[- range.x, range.x]\<close> and whose \<open>y\<close> is at least the ground clearance 1.
\<close>

theorem respawn_in_front:
  assumes "positiveRange lc" and "unitDraws d"
  shows "vz (position (respawn lc d t)) < 0
       \<and> - vz (spawnRange lc) - 5 \<le> vz (position (respawn lc d t))
       \<and> vz (position (respawn lc d t)) \<le> - 5
       \<and> - vx (spawnRange lc) \<le> vx (position (respawn lc d t))
       \<and> vx (position (respawn lc d t)) \<le> vx (spawnRange lc)
       \<and> 1 \<le> vy (position (respawn lc d t))
       \<and> position (newTarget m lc d) = position (respawn lc d t)"
  using spawnPosition_in_volume [OF assms]
  by (simp add: inSpawnVolume_def respawn_def newTarget_def)

theorem respawn_in_front_witness:
  "positiveRange beginner \<and> unitDraws (1 / 2, 0, 0)
   \<and> position (respawn beginner (1 / 2, 0, 0) (newTarget 0 beginner (0, 0, 0))) = Vector3 0 1 (- 5)
   \<and> vz (position (respawn beginner (1 / 2, 0, 0) (newTarget 0 beginner (0, 0, 0)))) < 0"
  using respawn_in_front [of beginner "(1 / 2, 0, 0)" "newTarget 0 beginner (0, 0, 0)" 0]
  by (simp add: positiveRange_def unitDraws_def beginner_def respawn_def spawnPosition_def)

section \<open>Pursuit\<close>

lemma distanceTo_length: "distanceTo p c = lengthV (subVectors c p)"
  by (simp add: distanceTo_def lengthV_def subVectors_def algebra_simps)

lemma distanceTo_nonneg: "0 \<le> distanceTo p c"
  by (simp add: distanceTo_def)

lemma lengthV_scale: "lengthV (multiplyScalar v k) = \<bar>k\<bar> * lengthV v"
proof -
  have "vx v * k * (vx v * k) + vy v * k * (vy v * k) + vz v * k * (vz v * k)
        = k\<^sup>2 * (vx v * vx v + vy v * vy v + vz v * vz v)"
    by (simp add: power2_eq_square algebra_simps)
  then show ?thesis
    by (simp add: lengthV_def multiplyScalar_def real_sqrt_mult)
qed

lemma moved_offset:
  "subVectors c (moved c t) = multiplyScalar (subVectors c (position t)) (approach c t)"
  by (simp add: moved_def normalize_def divideScalar_def multiplyScalar_def subVectors_def
      addVector_def approach_def distanceTo_length algebra_simps)

lemma moved_vz: "vz c - vz (moved c t) = (vz c - vz (position t)) * approach c t"
  using moved_offset [of c t] by (simp add: subVectors_def multiplyScalar_def)

lemma moved_scaled: "distanceTo (moved c t) c = \<bar>approach c t\<bar> * distanceTo (position t) c"
  by (simp add: distanceTo_length [of "moved c t"] moved_offset lengthV_scale)
     (simp add: distanceTo_length)

lemma moved_distance:
  assumes "0 < distanceTo (position t) c"
  shows "distanceTo (moved c t) c = \<bar>distanceTo (position t) c - speed t\<bar>"
proof -
  let ?L = "distanceTo (position t) c"
  have "distanceTo (moved c t) c = \<bar>approach c t\<bar> * ?L" by (rule moved_scaled)
  also have "\<dots> = \<bar>approach c t * ?L\<bar>"
    using assms by (simp add: abs_mult)
  also have "approach c t * ?L = ?L - speed t"
    using assms by (simp add: approach_def field_simps)
  finally show ?thesis .
qed

lemma moved_at_camera:
  assumes "distanceTo (position t) c = 0"
  shows "distanceTo (moved c t) c = 0"
  using moved_scaled [of c t] assms by simp

lemma update_respawned:
  "respawnCondition (moved c t) c \<Longrightarrow> position (update c lc d t) = spawnPosition lc d"
  by (simp add: update_def respawn_def)

lemma update_moved:
  "\<not> respawnCondition (moved c t) c \<Longrightarrow>
     position (update c lc d t) = moved c t \<and> speed (update c lc d t) = speed t"
  by (simp add: update_def)

lemma update_levelConfig: "levelConfig (update c lc d t) = levelConfig t"
  by (simp add: update_def respawn_def Let_def)

text \<open>
  C2, as amended. Let the target have positive speed, and let either the speed be at most
  the respawn radius 1 (as in the three presets), or the camera stand at \<open>z \<ge> 0\<close> with the
  target in front of it (the game's camera stays at the origin and targets spawn at
  \<open>z \<le> -5\<close>). Then one \<open>update\<close> either fires the respawn condition, and the target is
  placed by the draws inside the spawn volume of the level, or it leaves the target
  strictly closer to the camera, with its speed unchanged and the same condition in force
  for the next call.
\<close>

theorem update_approaches:
  assumes speed: "0 < speed t"
    and safe: "speed t \<le> 1 \<or> (0 \<le> vz c \<and> vz (position t) < vz c)"
    and range: "positiveRange lc" and draws: "unitDraws d"
  shows "if respawnCondition (moved c t) c
         then position (update c lc d t) = spawnPosition lc d
            \<and> inSpawnVolume lc (position (update c lc d t))
         else distanceTo (position (update c lc d t)) c < distanceTo (position t) c
            \<and> speed (update c lc d t) = speed t
            \<and> (speed t \<le> 1 \<or> (0 \<le> vz c \<and> vz (position (update c lc d t)) < vz c))"
proof (cases "respawnCondition (moved c t) c")
  case True
  then show ?thesis
    using spawnPosition_in_volume [OF range draws] by (simp add: update_respawned)
next
  case False
  let ?D = "distanceTo (position t) c"
  from False have far: "1 \<le> distanceTo (moved c t) c" and behind: "vz (moved c t) \<le> 0"
    by (simp_all add: respawnCondition_def)
  have "?D \<noteq> 0" using far moved_at_camera [of t c] by auto
  then have pos: "0 < ?D" using distanceTo_nonneg [of "position t" c] by simp
  have dist: "distanceTo (moved c t) c = \<bar>?D - speed t\<bar>" by (rule moved_distance [OF pos])
  have app: "approach c t = 1 - speed t / ?D" using pos by (simp add: approach_def)
  have less: "speed t < ?D"
  proof (rule ccontr)
    assume "\<not> speed t < ?D"
    then have ge: "?D \<le> speed t" by simp
    from safe show False
    proof
      assume "speed t \<le> 1"
      then show False using ge pos far dist by simp
    next
      assume front: "0 \<le> vz c \<and> vz (position t) < vz c"
      have "speed t \<noteq> ?D" using far dist by auto
      then have "?D < speed t" using ge by simp
      then have "approach c t < 0" using pos by (simp add: app field_simps)
      then have "(vz c - vz (position t)) * approach c t < 0"
        using front by (simp add: mult_pos_neg)
      then show False using moved_vz [of c t] behind front by simp
    qed
  qed
  have closer: "distanceTo (moved c t) c < ?D" using less speed dist by simp
  have keep: "speed t \<le> 1 \<or> (0 \<le> vz c \<and> vz (moved c t) < vz c)"
  proof (cases "speed t \<le> 1")
    case True
    then show ?thesis by simp
  next
    case False
    with safe have front: "0 \<le> vz c" "vz (position t) < vz c" by simp_all
    have "0 < approach c t" using less pos by (simp add: app)
    then have "0 < (vz c - vz (position t)) * approach c t" using front by simp
    then show ?thesis using moved_vz [of c t] front by simp
  qed
  show ?thesis using False closer keep by (simp add: update_moved)
qed

lemma sqrt_9: "sqrt 9 = 3"
  by (rule real_sqrt_unique) simp_all

lemma sqrt_64: "sqrt 64 = 8"
  by (rule real_sqrt_unique) simp_all

lemma sqrt_169: "sqrt 169 = 13"
  by (rule real_sqrt_unique) simp_all

lemma approaching_fields:
  "position approaching = Vector3 0 5 (- 12) \<and> speed approaching = 5 / 100"
  by (simp add: approaching_def newTarget_def respawn_def spawnPosition_def beginner_def)

lemma overshooting_fields:
  "position overshooting = Vector3 0 1 (- 10) \<and> speed overshooting = 10"
  by (simp add: overshooting_def fast_def newTarget_def respawn_def spawnPosition_def
      beginner_def)

lemma approaching_distance: "distanceTo (position approaching) (Vector3 0 0 0) = 13"
  by (simp add: approaching_fields distanceTo_def sqrt_169)

lemma approaching_moved:
  "moved (Vector3 0 0 0) approaching = Vector3 0 (5 - 25 / 1300) (- 12 + 60 / 1300)"
  by (simp add: moved_def approaching_fields normalize_def divideScalar_def multiplyScalar_def
      subVectors_def addVector_def lengthV_def sqrt_169)

text \<open>
  The fresh beginner target at \<open>(0, 5, -12)\<close>, thirteen units from a camera at the origin,
  moves without respawning and ends closer than thirteen units.
\<close>

theorem update_approaches_witness:
  "0 < speed approaching \<and> speed approaching \<le> 1 \<and> positiveRange beginner
   \<and> unitDraws (1 / 2, 0, 0)
   \<and> \<not> respawnCondition (moved (Vector3 0 0 0) approaching) (Vector3 0 0 0)
   \<and> distanceTo (position (update (Vector3 0 0 0) beginner (1 / 2, 0, 0) approaching))
        (Vector3 0 0 0) < 13"
proof -
  have far: "distanceTo (moved (Vector3 0 0 0) approaching) (Vector3 0 0 0) = 13 - 5 / 100"
    using moved_distance [of approaching "Vector3 0 0 0"]
    by (simp add: approaching_distance) (simp add: approaching_fields)
  have no: "\<not> respawnCondition (moved (Vector3 0 0 0) approaching) (Vector3 0 0 0)"
    unfolding respawnCondition_def far by (simp add: approaching_moved)
  have hyp: "0 < speed approaching" "speed approaching \<le> 1" "positiveRange beginner"
    "unitDraws (1 / 2, 0, 0)"
    by (simp_all add: approaching_fields positiveRange_def beginner_def unitDraws_def)
  show ?thesis
    using update_approaches [of approaching "Vector3 0 0 0" beginner "(1 / 2, 0, 0)"] no hyp
    by (simp add: approaching_distance)
qed

text \<open>
  C2 as stated fails: a fresh target of the level with speed 10, at \<open>(0, 1, -10)\<close> and two
  units from a camera at \<open>(0, 3, -10)\<close>, jumps past the camera to \<open>(0, 11, -10)\<close>. No
  respawn fires (the distance is 8 and \<open>z\<close> is negative), and the distance has grown from
  2 to 8.
\<close>

theorem overshoot_counterexample:
  "0 < speed overshooting
   \<and> \<not> respawnCondition (moved (Vector3 0 3 (- 10)) overshooting) (Vector3 0 3 (- 10))
   \<and> distanceTo (position overshooting) (Vector3 0 3 (- 10)) = 2
   \<and> distanceTo (position (update (Vector3 0 3 (- 10)) fast (0, 0, 0) overshooting))
        (Vector3 0 3 (- 10)) = 8"
proof -
  have m: "moved (Vector3 0 3 (- 10)) overshooting = Vector3 0 11 (- 10)"
    by (simp add: moved_def overshooting_fields normalize_def divideScalar_def
        multiplyScalar_def subVectors_def addVector_def lengthV_def)
  have d: "distanceTo (Vector3 0 11 (- 10)) (Vector3 0 3 (- 10)) = 8"
    by (simp add: distanceTo_def sqrt_64)
  have no: "\<not> respawnCondition (moved (Vector3 0 3 (- 10)) overshooting) (Vector3 0 3 (- 10))"
    by (simp add: respawnCondition_def m d)
  have "distanceTo (position overshooting) (Vector3 0 3 (- 10)) = 2"
    by (simp add: overshooting_fields distanceTo_def)
  then show ?thesis
    using no update_moved [OF no, of fast "(0, 0, 0)"] m d
    by (simp add: overshooting_fields)
qed

section \<open>The match timer\<close>

text \<open>What the timer display reads, also for a negative number of seconds.\<close>

lemma formatTime_examples:
  "formatTime 90 = ''1:30'' \<and> formatTime 5 = ''0:05'' \<and> formatTime 0 = ''0:00''
   \<and> formatTime (- 1) = ''-1:0-1''"
  by code_simp

lemma updateTimer_idle: "\<not> isPlaying s \<Longrightarrow> updateTimer s = s"
  by (simp add: updateTimer_def)

lemma updateTimer_playing:
  "isPlaying s \<Longrightarrow> timeLeft (updateTimer s) = timeLeft s - 1"
  by (simp add: updateTimer_def endGame_def Let_def)

lemma updateTimer_fields:
  "isPlaying s \<Longrightarrow>
     isPlaying (updateTimer s) = (1 < timeLeft s)
   \<and> timeouts (updateTimer s)
       = timeouts s @ (if 1 < timeLeft s then [] else [(500, GameOverAlert TimesUp)])"
  by (auto simp add: updateTimer_def endGame_def Let_def)

lemma updateTimer_frame:
  "score (updateTimer s) = score s \<and> matchTimers (updateTimer s) = matchTimers s
   \<and> countdownIntervals (updateTimer s) = countdownIntervals s
   \<and> targets (updateTimer s) = targets s \<and> currentLevel (updateTimer s) = currentLevel s"
  by (simp add: updateTimer_def endGame_def Let_def)

lemma updateTimer_ticks:
  assumes "isPlaying s" and "1 \<le> timeLeft s"
  shows "timeLeft ((updateTimer ^^ n) s) = max 0 (timeLeft s - int n)
       \<and> isPlaying ((updateTimer ^^ n) s) = (int n < timeLeft s)
       \<and> timeouts ((updateTimer ^^ n) s)
           = timeouts s @ (if int n < timeLeft s then [] else [(500, GameOverAlert TimesUp)])"
proof (induction n)
  case 0
  then show ?case using assms by simp
next
  case (Suc n)
  let ?u = "(updateTimer ^^ n) s"
  show ?case
  proof (cases "int n < timeLeft s")
    case True
    with Suc have u: "isPlaying ?u" "timeLeft ?u = timeLeft s - int n" "timeouts ?u = timeouts s"
      by simp_all
    show ?thesis
      using updateTimer_playing [OF u(1)] updateTimer_fields [OF u(1)] u True
      by auto
  next
    case False
    with Suc have "\<not> isPlaying ?u" by simp
    then have "updateTimer ?u = ?u" by (rule updateTimer_idle)
    then show ?thesis using Suc False by simp
  qed
qed

text \<open>
  C1. A timer tick in a playing state lowers \<open>timeLeft\<close> by exactly 1. From a playing state
  with at least one second left, \<open>n\<close> ticks leave \<open>timeLeft\<close> at \<open>max 0 (timeLeft - n)\<close>, never
  below 0; the match is playing exactly as long as fewer ticks than seconds have passed,
  and \<open>endGame\<close> has scheduled its one alert exactly from the tick that reaches 0 on. A
  tick in a state that is not playing changes nothing.
\<close>

theorem timer_counts_down:
  assumes "isPlaying s" and "1 \<le> timeLeft s"
  shows "(\<forall>u. isPlaying u \<longrightarrow> timeLeft (updateTimer u) = timeLeft u - 1)
       \<and> timeLeft ((updateTimer ^^ n) s) = max 0 (timeLeft s - int n)
       \<and> 0 \<le> timeLeft ((updateTimer ^^ n) s)
       \<and> isPlaying ((updateTimer ^^ n) s) = (int n < timeLeft s)
       \<and> timeouts ((updateTimer ^^ n) s)
           = timeouts s @ (if int n < timeLeft s then [] else [(500, GameOverAlert TimesUp)])
       \<and> (\<forall>u. \<not> isPlaying u \<longrightarrow> updateTimer u = u)"
  using updateTimer_ticks [OF assms, of n]
  by (simp add: updateTimer_idle updateTimer_playing)

lemma startCountdown_fields:
  "countdown (startCountdown lc rnd s) = 5
   \<and> countdownText (startCountdown lc rnd s) = 5
   \<and> score (startCountdown lc rnd s) = 0
   \<and> timeLeft (startCountdown lc rnd s) = gameTime lc
   \<and> currentLevel (startCountdown lc rnd s) = lc
   \<and> isPlaying (startCountdown lc rnd s) = isPlaying s
   \<and> isLocked (startCountdown lc rnd s) = isLocked s
   \<and> timeouts (startCountdown lc rnd s) = timeouts s
   \<and> matchTimers (startCountdown lc rnd s) = matchTimers s
   \<and> countdownIntervals (startCountdown lc rnd s) = countdownIntervals s @ [nextTimerId s]
   \<and> targets (startCountdown lc rnd s)
       = map (\<lambda>i. newTarget (nextMesh s + i) lc (rnd i)) [0..<targetCount lc]"
  by (simp add: startCountdown_def createTargets_def Let_def)

lemma afterCountdown_fields:
  "isPlaying afterCountdown \<and> timeLeft afterCountdown = 90 \<and> score afterCountdown = 0
   \<and> \<not> isLocked afterCountdown \<and> timeouts afterCountdown = []
   \<and> countdownIntervals afterCountdown = [] \<and> matchTimers afterCountdown = 1
   \<and> currentLevel afterCountdown = beginner
   \<and> camera_position afterCountdown = Vector3 0 0 0
   \<and> alerts afterCountdown = []
   \<and> targets afterCountdown = map (\<lambda>i. newTarget i beginner (1 / 2, 0, 0)) [0..<5]"
  by (simp add: afterCountdown_def run_def step_def selectLevel_def startCountdown_def
      createTargets_def countdownTick_def initial_def Let_def centred_def)
     (simp add: beginner_def)

text \<open>
  The beginner match: one second is left after 89 ticks, the 90th ends the match and
  schedules the alert, and the 91st changes neither the time nor the pending timeouts.
\<close>

theorem timer_counts_down_witness:
  "isPlaying afterCountdown \<and> 1 \<le> timeLeft afterCountdown
   \<and> timeLeft ((updateTimer ^^ 89) afterCountdown) = 1
   \<and> isPlaying ((updateTimer ^^ 89) afterCountdown)
   \<and> timeLeft ((updateTimer ^^ 90) afterCountdown) = 0
   \<and> \<not> isPlaying ((updateTimer ^^ 90) afterCountdown)
   \<and> timeouts ((updateTimer ^^ 90) afterCountdown) = [(500, GameOverAlert TimesUp)]
   \<and> timeLeft ((updateTimer ^^ 91) afterCountdown) = 0
   \<and> timeouts ((updateTimer ^^ 91) afterCountdown) = [(500, GameOverAlert TimesUp)]"
  using timer_counts_down [of afterCountdown 89] timer_counts_down [of afterCountdown 90]
    timer_counts_down [of afterCountdown 91] afterCountdown_fields
  by simp

section \<open>Properties of shooting\<close>

lemma playShootSound_fields:
  "playShootSound s
     = s\<lparr> currentSoundIndex := currentSoundIndex (playShootSound s),
          soundsPlayed := soundsPlayed (playShootSound s) \<rparr>"
  by (simp add: playShootSound_def split: sounds.split)

lemma playShootSound_frame:
  "score (playShootSound s) = score s \<and> timeouts (playShootSound s) = timeouts s
   \<and> targets (playShootSound s) = targets s \<and> timeLeft (playShootSound s) = timeLeft s
   \<and> currentLevel (playShootSound s) = currentLevel s
   \<and> matchTimers (playShootSound s) = matchTimers s
   \<and> isPlaying (playShootSound s) = isPlaying s"
  by (simp add: playShootSound_def split: sounds.split)

lemma click_guard: "\<not> isPlaying s \<or> \<not> isLocked s \<Longrightarrow> click intersects s = s"
  by (auto simp add: click_def)

lemma click_miss:
  "click [] s = s\<lparr> currentSoundIndex := currentSoundIndex (click [] s),
                    soundsPlayed := soundsPlayed (click [] s) \<rparr>"
proof (cases "\<not> isPlaying s \<or> \<not> isLocked s")
  case True
  then show ?thesis by (simp add: click_guard)
next
  case False
  then have "click [] s = playShootSound s" by (simp add: click_def)
  then show ?thesis using playShootSound_fields [of s] by simp
qed

lemma click_scores:
  assumes "isPlaying s" and "isLocked s"
  shows "score (click (m # ms) s) = score s + 1
       \<and> scoreText (click (m # ms) s) = score s + 1
       \<and> timeouts (click (m # ms) s) = timeouts s @ [(200, RestoreAndRespawn m)]
       \<and> targets (click (m # ms) s) = map (setColor m 16777215) (targets s)
       \<and> currentLevel (click (m # ms) s) = currentLevel s
       \<and> timeLeft (click (m # ms) s) = timeLeft s
       \<and> isPlaying (click (m # ms) s)"
  using assms playShootSound_frame [of s] by (simp add: click_def Let_def)

lemma click_frame:
  "timeLeft (click xs s) = timeLeft s \<and> matchTimers (click xs s) = matchTimers s
   \<and> countdownIntervals (click xs s) = countdownIntervals s
   \<and> isPlaying (click xs s) = isPlaying s
   \<and> (score (click xs s) = score s
       \<or> isPlaying s \<and> isLocked s \<and> xs \<noteq> [] \<and> score (click xs s) = score s + 1)"
  by (cases xs) (simp_all add: click_def Let_def playShootSound_def split: sounds.split)

lemma setColor_keeps: "mesh (setColor m c t) = mesh t \<and> position (setColor m c t) = position t"
  by (simp add: setColor_def)

lemma map_setColor: "mesh \<circ> setColor m c = mesh" "position \<circ> setColor m c = position"
  by (simp_all add: fun_eq_iff setColor_keeps)

lemma respawnFound_at:
  assumes "distinct (map mesh ts)" and "i < length ts" and "mesh (ts ! i) = m"
  shows "respawnFound m lc d ts = ts[i := respawn lc d (ts ! i)]"
  using assms
proof (induction ts arbitrary: i)
  case Nil
  then show ?case by simp
next
  case (Cons t ts)
  show ?case
  proof (cases i)
    case 0
    with Cons.prems show ?thesis by simp
  next
    case (Suc j)
    with Cons.prems have j: "j < length ts" "mesh (ts ! j) = m" by simp_all
    then have "m \<in> set (map mesh ts)" by (metis length_map nth_map nth_mem)
    with Cons.prems have "mesh t \<noteq> m" by auto
    with Cons.IH [of j] Cons.prems j Suc show ?thesis by simp
  qed
qed

lemma fireTimeout_frame:
  "score (fireTimeout a d s) = score s \<and> timeLeft (fireTimeout a d s) = timeLeft s
   \<and> matchTimers (fireTimeout a d s) = matchTimers s
   \<and> countdownIntervals (fireTimeout a d s) = countdownIntervals s
   \<and> isPlaying (fireTimeout a d s) = isPlaying s
   \<and> timeouts (fireTimeout a d s) = timeouts s"
  by (simp add: fireTimeout_def split: timeout_action.split)

lemma fire_respawn:
  assumes "distinct (map mesh (targets u))" and "i < length (targets u)"
    and "mesh (targets u ! i) = m"
  shows "position (targets (fireTimeout (RestoreAndRespawn m) d u) ! i)
           = spawnPosition (currentLevel u) d
       \<and> (\<forall>j<length (targets u). j \<noteq> i \<longrightarrow>
            position (targets (fireTimeout (RestoreAndRespawn m) d u) ! j)
              = position (targets u ! j))"
proof -
  let ?ts = "map (setColor m (color (currentLevel u))) (targets u)"
  have d: "distinct (map mesh ?ts)" using assms(1) by (simp add: map_setColor)
  have i: "i < length ?ts" "mesh (?ts ! i) = m" using assms by (simp_all add: setColor_keeps)
  have t: "targets (fireTimeout (RestoreAndRespawn m) d u)
           = ?ts[i := respawn (currentLevel u) d (?ts ! i)]"
    using respawnFound_at [OF d i] by (simp add: fireTimeout_def)
  show ?thesis
    unfolding t using assms(2)
    by (simp add: nth_list_update setColor_keeps respawn_def)
qed

lemma other_mesh:
  assumes "distinct (map mesh ts)" and "i < length ts" and "j < length ts" and "j \<noteq> i"
  shows "mesh (ts ! j) \<noteq> mesh (ts ! i)"
proof -
  have "map mesh ts ! j \<noteq> map mesh ts ! i"
    using assms by (simp add: nth_eq_iff_index_eq del: nth_map)
  then show ?thesis using assms by simp
qed

lemma setColor_only:
  assumes "distinct (map mesh ts)" and "i < length ts" and "mesh (ts ! i) = m"
  shows "map (setColor m c) ts = ts[i := (ts ! i)\<lparr> material_color := c \<rparr>]"
proof (rule nth_equalityI)
  show "length (map (setColor m c) ts) = length (ts[i := (ts ! i)\<lparr> material_color := c \<rparr>])"
    by simp
next
  fix j
  assume "j < length (map (setColor m c) ts)"
  then have j: "j < length ts" by simp
  show "map (setColor m c) ts ! j = ts[i := (ts ! i)\<lparr> material_color := c \<rparr>] ! j"
  proof (cases "j = i")
    case True
    then show ?thesis using assms by (simp add: setColor_def)
  next
    case False
    then have "mesh (ts ! j) \<noteq> m" using other_mesh [OF assms(1,2) j] assms(3) by simp
    then show ?thesis using False j by (simp add: setColor_def)
  qed
qed

lemma fire_respawn_only:
  assumes "distinct (map mesh (targets u))" and "i < length (targets u)"
    and "mesh (targets u ! i) = m"
  shows "targets (fireTimeout (RestoreAndRespawn m) d u)
           = (targets u)[i := respawn (currentLevel u) d
                                 ((targets u ! i)\<lparr> material_color := color (currentLevel u) \<rparr>)]"
proof -
  let ?c = "color (currentLevel u)"
  let ?ts = "(targets u)[i := (targets u ! i)\<lparr> material_color := ?c \<rparr>]"
  have c: "map (setColor m ?c) (targets u) = ?ts" by (rule setColor_only [OF assms])
  have d: "distinct (map mesh ?ts)" using assms(1) c [symmetric] by (simp add: map_setColor)
  have i: "i < length ?ts" "mesh (?ts ! i) = m" using assms by simp_all
  have "targets (fireTimeout (RestoreAndRespawn m) d u)
          = ?ts[i := respawn (currentLevel u) d (?ts ! i)]"
    using respawnFound_at [OF d i] c by (simp add: fireTimeout_def)
  then show ?thesis using assms(2) by simp
qed

lemma newTarget_fields:
  "mesh (newTarget m lc d) = m \<and> position (newTarget m lc d) = spawnPosition lc d
   \<and> speed (newTarget m lc d) = targetSpeed lc \<and> levelConfig (newTarget m lc d) = lc"
  by (simp add: newTarget_def respawn_def)

lemma centre_spawn: "spawnPosition beginner (1 / 2, 0, 0) = Vector3 0 1 (- 5)"
  by (simp add: spawnPosition_def beginner_def)

lemma aimed_fields:
  "isPlaying aimed \<and> isLocked aimed \<and> score aimed = 0 \<and> timeLeft aimed = 90
   \<and> timeouts aimed = [] \<and> currentLevel aimed = beginner
   \<and> camera_position aimed = Vector3 0 0 0 \<and> alerts aimed = []"
  using afterCountdown_fields by (simp add: aimed_def step_def pointerLock_def)

lemma aimed_targets:
  "distinct (map mesh (targets aimed)) \<and> 0 < length (targets aimed)
   \<and> length (targets aimed) = 5
   \<and> mesh (targets aimed ! 0) = 0 \<and> position (targets aimed ! 0) = Vector3 0 1 (- 5)"
  using afterCountdown_fields
  by (simp add: aimed_def step_def pointerLock_def comp_def newTarget_fields centre_spawn)

text \<open>
  C5. A click while the match is not playing or the pointer is not locked returns the
  state as it was. A click that passes this guard and hits nothing plays the shot sound
  (the sound index and the count of sounds played are all it may change): the score, the
  pending timeouts and the targets stay as they were.
\<close>

theorem click_ignored:
  "(\<not> isPlaying s \<or> \<not> isLocked s \<longrightarrow> click intersects s = s)
   \<and> click [] s = s\<lparr> currentSoundIndex := currentSoundIndex (click [] s),
                      soundsPlayed := soundsPlayed (click [] s) \<rparr>
   \<and> score (click [] s) = score s
   \<and> timeouts (click [] s) = timeouts s
   \<and> targets (click [] s) = targets s"
proof -
  have "score (click [] s) = score s \<and> timeouts (click [] s) = timeouts s
      \<and> targets (click [] s) = targets s"
    by (subst click_miss, simp)+
  then show ?thesis using click_guard [of s intersects] click_miss [of s] by blast
qed

text \<open>
  With the pointer not yet locked, a click on target 0 leaves the state as it is; with the
  pointer locked, a click that hits nothing leaves the score at 0 and schedules nothing.
\<close>

theorem click_ignored_witness:
  "\<not> isLocked afterCountdown \<and> click [0] afterCountdown = afterCountdown
   \<and> score (click [] aimed) = 0 \<and> timeouts (click [] aimed) = []"
  using click_ignored [of afterCountdown "[0]"] click_ignored [of aimed "[]"]
    afterCountdown_fields aimed_fields
  by simp

text \<open>
  C4, as amended. While the match is playing and the pointer is locked, a click whose ray
  hits the meshes \<open>m # ms\<close> (nearest first) raises the score by exactly 1 and schedules,
  with a delay of 200 ms, the respawn of the mesh \<open>m\<close>. Of the targets it changes only the
  one that owns \<open>m\<close>, and of that one only the colour, which becomes white: every other
  target is left exactly as it was and no target is moved. When the timeout fires, in the
  state the click left or in any later state \<open>u\<close> whose targets still include the one with
  mesh \<open>m\<close>, that target gets the level's colour back and is placed by \<open>respawn\<close> at the
  position the draws give in the spawn volume of the current level, and again every other
  target is left exactly as it was. Meshes are handles that no two targets share
  (\<open>step_keeps_meshes_distinct\<close> below).
\<close>

theorem click_hit:
  assumes "isPlaying s" and "isLocked s"
    and "distinct (map mesh (targets s))" and "i < length (targets s)"
    and "mesh (targets s ! i) = m"
  shows "score (click (m # ms) s) = score s + 1
       \<and> timeouts (click (m # ms) s) = timeouts s @ [(200, RestoreAndRespawn m)]
       \<and> map position (targets (click (m # ms) s)) = map position (targets s)
       \<and> material_color (targets (click (m # ms) s) ! i) = 16777215
       \<and> targets (click (m # ms) s)
           = (targets s)[i := (targets s ! i)\<lparr> material_color := 16777215 \<rparr>]
       \<and> (\<forall>j<length (targets s). j \<noteq> i \<longrightarrow>
            targets (click (m # ms) s) ! j = targets s ! j)
       \<and> position (targets (step (Timeout (length (timeouts s)) d) (click (m # ms) s)) ! i)
           = spawnPosition (currentLevel s) d
       \<and> targets (step (Timeout (length (timeouts s)) d) (click (m # ms) s))
           = (targets s)[i := respawn (currentLevel s) d
                                 ((targets s ! i)\<lparr> material_color := color (currentLevel s) \<rparr>)]
       \<and> (\<forall>j<length (targets s). j \<noteq> i \<longrightarrow>
            targets (step (Timeout (length (timeouts s)) d) (click (m # ms) s)) ! j
              = targets s ! j)
       \<and> timeouts (step (Timeout (length (timeouts s)) d) (click (m # ms) s)) = timeouts s
       \<and> (\<forall>u k. distinct (map mesh (targets u)) \<and> k < length (targets u)
              \<and> mesh (targets u ! k) = m \<longrightarrow>
            position (targets (fireTimeout (RestoreAndRespawn m) d u) ! k)
              = spawnPosition (currentLevel u) d
          \<and> targets (fireTimeout (RestoreAndRespawn m) d u)
              = (targets u)[k := respawn (currentLevel u) d
                                    ((targets u ! k)\<lparr> material_color := color (currentLevel u) \<rparr>)]
          \<and> (\<forall>j<length (targets u). j \<noteq> k \<longrightarrow>
                targets (fireTimeout (RestoreAndRespawn m) d u) ! j = targets u ! j))"
proof -
  let ?s1 = "click (m # ms) s"
  let ?white = "(targets s)[i := (targets s ! i)\<lparr> material_color := 16777215 \<rparr>]"
  note f = click_scores [OF assms(1,2), of m ms]
  have t1: "targets ?s1 = ?white"
    using f setColor_only [OF assms(3-5), of 16777215] by simp
  let ?u = "?s1\<lparr> timeouts := take (length (timeouts s)) (timeouts ?s1)
                              @ drop (Suc (length (timeouts s))) (timeouts ?s1) \<rparr>"
  have st: "step (Timeout (length (timeouts s)) d) ?s1 = fireTimeout (RestoreAndRespawn m) d ?u"
    using f by (simp add: step_def)
  have u: "distinct (map mesh (targets ?u))" "i < length (targets ?u)"
    "mesh (targets ?u ! i) = m" "currentLevel ?u = currentLevel s" "timeouts ?u = timeouts s"
    "targets ?u = ?white"
    using f t1 assms(3-5) by (simp_all add: map_setColor setColor_keeps)
  have t2: "targets (fireTimeout (RestoreAndRespawn m) d ?u)
              = (targets s)[i := respawn (currentLevel s) d
                                   ((targets s ! i)\<lparr> material_color := color (currentLevel s) \<rparr>)]"
    using fire_respawn_only [OF u(1-3), of d] u(4,6) assms(4) by simp
  have tm: "timeouts (fireTimeout (RestoreAndRespawn m) d ?u) = timeouts s"
    using u(5) by (simp add: fireTimeout_def)
  have gen: "position (targets (fireTimeout (RestoreAndRespawn m) d v) ! k)
              = spawnPosition (currentLevel v) d
          \<and> targets (fireTimeout (RestoreAndRespawn m) d v)
              = (targets v)[k := respawn (currentLevel v) d
                                    ((targets v ! k)\<lparr> material_color := color (currentLevel v) \<rparr>)]
          \<and> (\<forall>j<length (targets v). j \<noteq> k \<longrightarrow>
                targets (fireTimeout (RestoreAndRespawn m) d v) ! j = targets v ! j)"
    if "distinct (map mesh (targets v))" "k < length (targets v)" "mesh (targets v ! k) = m"
    for v k
    using fire_respawn_only [OF that, of d] that(2) by (simp add: respawn_def)
  have sc: "score ?s1 = score s + 1"
    "timeouts ?s1 = timeouts s @ [(200, RestoreAndRespawn m)]"
    "map position (targets ?s1) = map position (targets s)"
    using f by (simp_all add: map_setColor)
  have col: "material_color (targets ?s1 ! i) = 16777215"
    "\<forall>j<length (targets s). j \<noteq> i \<longrightarrow> targets ?s1 ! j = targets s ! j"
    unfolding t1 using assms(4) by simp_all
  have first: "score ?s1 = score s + 1
       \<and> timeouts ?s1 = timeouts s @ [(200, RestoreAndRespawn m)]
       \<and> map position (targets ?s1) = map position (targets s)
       \<and> material_color (targets ?s1 ! i) = 16777215
       \<and> targets ?s1 = ?white
       \<and> (\<forall>j<length (targets s). j \<noteq> i \<longrightarrow> targets ?s1 ! j = targets s ! j)"
    using sc col t1 by blast
  have second: "position (targets (step (Timeout (length (timeouts s)) d) ?s1) ! i)
           = spawnPosition (currentLevel s) d
       \<and> targets (step (Timeout (length (timeouts s)) d) ?s1)
           = (targets s)[i := respawn (currentLevel s) d
                                 ((targets s ! i)\<lparr> material_color := color (currentLevel s) \<rparr>)]
       \<and> (\<forall>j<length (targets s). j \<noteq> i \<longrightarrow>
            targets (step (Timeout (length (timeouts s)) d) ?s1) ! j = targets s ! j)
       \<and> timeouts (step (Timeout (length (timeouts s)) d) ?s1) = timeouts s"
    unfolding st using t2 tm assms(4) by (simp add: respawn_def)
  from first second gen show ?thesis by blast
qed

text \<open>
  In the beginner match, with the pointer locked, a click on target 0 makes the score 1
  and schedules the respawn; with the draws \<open>(0, 0.5, 0.5)\<close> the timeout moves the target
  from \<open>(0, 1, -5)\<close> to \<open>(-15, 3.5, -25)\<close>. Target 1 is the same after the click and after
  the timeout as it was before.
\<close>

theorem click_hit_witness:
  "isPlaying aimed \<and> isLocked aimed \<and> distinct (map mesh (targets aimed))
   \<and> 0 < length (targets aimed) \<and> mesh (targets aimed ! 0) = 0
   \<and> score (click [0] aimed) = 1
   \<and> timeouts (click [0] aimed) = [(200, RestoreAndRespawn 0)]
   \<and> position (targets (step (Timeout 0 (0, 1 / 2, 1 / 2)) (click [0] aimed)) ! 0)
       = Vector3 (- 15) (7 / 2) (- 25)
   \<and> targets (click [0] aimed) ! 1 = targets aimed ! 1
   \<and> targets (step (Timeout 0 (0, 1 / 2, 1 / 2)) (click [0] aimed)) ! 1 = targets aimed ! 1"
proof -
  have a: "isPlaying aimed" "isLocked aimed" "distinct (map mesh (targets aimed))"
    "0 < length (targets aimed)" "mesh (targets aimed ! 0) = 0"
    using aimed_fields aimed_targets by simp_all
  have n: "(1::nat) < length (targets aimed)" "timeouts aimed = []"
    "currentLevel aimed = beginner"
    using aimed_targets aimed_fields by simp_all
  have p: "spawnPosition beginner (0, 1 / 2, 1 / 2) = Vector3 (- 15) (7 / 2) (- 25)"
    by (simp add: spawnPosition_def beginner_def)
  note h = click_hit [OF a, of "[]" "(0, 1 / 2, 1 / 2)"]
  have "score (click [0] aimed) = 1"
    "timeouts (click [0] aimed) = [(200, RestoreAndRespawn 0)]"
    "position (targets (step (Timeout 0 (0, 1 / 2, 1 / 2)) (click [0] aimed)) ! 0)
       = Vector3 (- 15) (7 / 2) (- 25)"
    "targets (click [0] aimed) ! 1 = targets aimed ! 1"
    "targets (step (Timeout 0 (0, 1 / 2, 1 / 2)) (click [0] aimed)) ! 1 = targets aimed ! 1"
    using h n p a(4) aimed_fields by (simp_all add: respawn_def)
  then show ?thesis using a by simp
qed

text \<open>
  C4 as stated fails twice. With the pointer locked, target 0 of the beginner match is hit
  at \<open>(0, 1, -5)\<close>, and when the timeout fires with the draws \<open>(0.5, 0, 0)\<close> its position is
  \<open>(0, 1, -5)\<close> again: the position after the respawn need not differ from the one before
  the hit. And while the match is playing with the pointer not locked, a click whose ray
  hits target 0 changes nothing, the score included.
\<close>

theorem same_position_counterexample:
  "isPlaying aimed \<and> isLocked aimed \<and> mesh (targets aimed ! 0) = 0
   \<and> position (targets aimed ! 0) = Vector3 0 1 (- 5)
   \<and> timeouts (step (Click [0]) aimed) = [(200, RestoreAndRespawn 0)]
   \<and> position (targets (run [Click [0], Timeout 0 (1 / 2, 0, 0)] aimed) ! 0)
       = Vector3 0 1 (- 5)
   \<and> isPlaying afterCountdown \<and> \<not> isLocked afterCountdown
   \<and> step (Click [0]) afterCountdown = afterCountdown"
proof -
  let ?s1 = "click [0] aimed"
  note f = click_scores [of aimed 0 "[]"]
  let ?u = "?s1\<lparr> timeouts := take 0 (timeouts ?s1) @ drop (Suc 0) (timeouts ?s1) \<rparr>"
  have u: "distinct (map mesh (targets ?u))" "0 < length (targets ?u)"
    "mesh (targets ?u ! 0) = 0" "currentLevel ?u = beginner"
    using f aimed_fields aimed_targets by (simp_all add: map_setColor setColor_keeps)
  have "run [Click [0], Timeout 0 (1 / 2, 0, 0)] aimed
        = fireTimeout (RestoreAndRespawn 0) (1 / 2, 0, 0) ?u"
    using f aimed_fields by (simp add: run_def step_def)
  then have "position (targets (run [Click [0], Timeout 0 (1 / 2, 0, 0)] aimed) ! 0)
               = Vector3 0 1 (- 5)"
    using fire_respawn [OF u(1-3), of "(1 / 2, 0, 0)"] u(4) by (simp add: centre_spawn)
  moreover have "step (Click [0]) afterCountdown = afterCountdown"
    using afterCountdown_fields by (simp add: step_def click_guard)
  ultimately show ?thesis
    using f aimed_fields aimed_targets afterCountdown_fields by (simp add: step_def)
qed

section \<open>Properties of the frame loop\<close>

lemma perTarget_target:
  "position (fst (perTarget rnd i t s)) = position (advance s rnd (i, t))
   \<and> mesh (fst (perTarget rnd i t s)) = mesh t"
  by (simp add: perTarget_def handleCollision_def advance_def Let_def update_def respawn_def)

lemma perTarget_world:
  "snd (perTarget rnd i t s)
     = (if reportsCollision s rnd (i, t)
        then s\<lparr> isPlaying := False, crosshairShown := False,
                timeouts := timeouts s @ [(500, GameOverAlert HitByTarget)] \<rparr>
        else s)"
  by (simp add: perTarget_def handleCollision_def reportsCollision_def advance_def Let_def)

lemma perTarget_frame:
  "camera_position (snd (perTarget rnd i t s)) = camera_position s
   \<and> currentLevel (snd (perTarget rnd i t s)) = currentLevel s
   \<and> score (snd (perTarget rnd i t s)) = score s
   \<and> timeLeft (snd (perTarget rnd i t s)) = timeLeft s
   \<and> matchTimers (snd (perTarget rnd i t s)) = matchTimers s
   \<and> countdownIntervals (snd (perTarget rnd i t s)) = countdownIntervals s
   \<and> alerts (snd (perTarget rnd i t s)) = alerts s
   \<and> isPlaying (snd (perTarget rnd i t s)) = (isPlaying s \<and> \<not> reportsCollision s rnd (i, t))
   \<and> timeouts (snd (perTarget rnd i t s))
       = timeouts s @ (if reportsCollision s rnd (i, t)
                       then [(500, GameOverAlert HitByTarget)] else [])"
  by (simp add: perTarget_world)

lemma same_view:
  "camera_position u = camera_position s \<Longrightarrow> currentLevel u = currentLevel s \<Longrightarrow>
     advance u rnd = advance s rnd \<and> reportsCollision u rnd = reportsCollision s rnd"
  by (simp add: advance_def reportsCollision_def fun_eq_iff)

lemma forEachTarget_targets:
  "map position (fst (forEachTarget rnd i ts s))
     = map (position \<circ> advance s rnd) (enumerate i ts)
   \<and> map mesh (fst (forEachTarget rnd i ts s)) = map mesh ts"
proof (induction ts arbitrary: i s)
  case Nil
  show ?case by simp
next
  case (Cons t ts)
  obtain t1 s1 where p: "perTarget rnd i t s = (t1, s1)" by (cases "perTarget rnd i t s")
  obtain ts1 s2 where r: "forEachTarget rnd (Suc i) ts s1 = (ts1, s2)"
    by (cases "forEachTarget rnd (Suc i) ts s1")
  have v: "advance s1 rnd = advance s rnd"
    using perTarget_frame [of rnd i t s] same_view [of s1 s rnd] p by simp
  have "map position ts1 = map (position \<circ> advance s rnd) (enumerate (Suc i) ts)
      \<and> map mesh ts1 = map mesh ts"
    using Cons.IH [of "Suc i" s1] r v by simp
  moreover have "position t1 = position (advance s rnd (i, t)) \<and> mesh t1 = mesh t"
    using perTarget_target [of rnd i t s] p by simp
  ultimately show ?case using p r by simp
qed

lemma forEachTarget_world:
  "camera_position (snd (forEachTarget rnd i ts s)) = camera_position s
   \<and> currentLevel (snd (forEachTarget rnd i ts s)) = currentLevel s
   \<and> score (snd (forEachTarget rnd i ts s)) = score s
   \<and> timeLeft (snd (forEachTarget rnd i ts s)) = timeLeft s
   \<and> matchTimers (snd (forEachTarget rnd i ts s)) = matchTimers s
   \<and> countdownIntervals (snd (forEachTarget rnd i ts s)) = countdownIntervals s
   \<and> alerts (snd (forEachTarget rnd i ts s)) = alerts s
   \<and> isPlaying (snd (forEachTarget rnd i ts s))
       = (isPlaying s \<and> collisionAlerts s rnd i ts = 0)
   \<and> timeouts (snd (forEachTarget rnd i ts s))
       = timeouts s @ replicate (collisionAlerts s rnd i ts) (500, GameOverAlert HitByTarget)"
proof (induction ts arbitrary: i s)
  case Nil
  show ?case by (simp add: collisionAlerts_def)
next
  case (Cons t ts)
  obtain t1 s1 where p: "perTarget rnd i t s = (t1, s1)" by (cases "perTarget rnd i t s")
  obtain ts1 s2 where r: "forEachTarget rnd (Suc i) ts s1 = (ts1, s2)"
    by (cases "forEachTarget rnd (Suc i) ts s1")
  have f: "camera_position s1 = camera_position s" "currentLevel s1 = currentLevel s"
    "score s1 = score s" "timeLeft s1 = timeLeft s" "matchTimers s1 = matchTimers s"
    "countdownIntervals s1 = countdownIntervals s" "alerts s1 = alerts s"
    "isPlaying s1 = (isPlaying s \<and> \<not> reportsCollision s rnd (i, t))"
    "timeouts s1 = timeouts s @ (if reportsCollision s rnd (i, t)
                                 then [(500, GameOverAlert HitByTarget)] else [])"
    using perTarget_frame [of rnd i t s] p by simp_all
  have v: "collisionAlerts s1 rnd (Suc i) ts = collisionAlerts s rnd (Suc i) ts"
    using same_view [OF f(1) f(2), of rnd] by (simp add: collisionAlerts_def)
  have n: "collisionAlerts s rnd i (t # ts)
           = (if reportsCollision s rnd (i, t) then 1 else 0) + collisionAlerts s rnd (Suc i) ts"
    by (simp add: collisionAlerts_def)
  have s2: "snd (forEachTarget rnd i (t # ts) s) = s2" using p r by simp
  show ?case
    unfolding s2 using Cons.IH [of "Suc i" s1] r f v n
    by (simp add: replicate_app_Cons_same)
qed

lemma animate_fields:
  assumes "isPlaying s"
  shows "map position (targets (animate rnd s))
           = map (position \<circ> advance s rnd) (enumerate 0 (targets s))
       \<and> map mesh (targets (animate rnd s)) = map mesh (targets s)
       \<and> timeouts (animate rnd s)
           = timeouts s @ replicate (collisionAlerts s rnd 0 (targets s))
                            (500, GameOverAlert HitByTarget)
       \<and> isPlaying (animate rnd s) = (collisionAlerts s rnd 0 (targets s) = 0)
       \<and> score (animate rnd s) = score s \<and> currentLevel (animate rnd s) = currentLevel s
       \<and> alerts (animate rnd s) = alerts s"
proof -
  obtain ts s1 where r: "forEachTarget rnd 0 (targets s) s = (ts, s1)"
    by (cases "forEachTarget rnd 0 (targets s) s")
  have a: "animate rnd s = s1\<lparr> targets := ts \<rparr>" using assms r by (simp add: animate_def)
  show ?thesis
    unfolding a
    using forEachTarget_targets [of rnd 0 "targets s" s]
      forEachTarget_world [of rnd 0 "targets s" s] r assms
    by simp
qed

lemma animate_frame:
  "score (animate rnd s) = score s \<and> timeLeft (animate rnd s) = timeLeft s
   \<and> matchTimers (animate rnd s) = matchTimers s
   \<and> countdownIntervals (animate rnd s) = countdownIntervals s
   \<and> (isPlaying (animate rnd s) \<longrightarrow> isPlaying s)"
proof (cases "isPlaying s")
  case False
  then show ?thesis by (simp add: animate_def)
next
  case True
  obtain ts s1 where r: "forEachTarget rnd 0 (targets s) s = (ts, s1)"
    by (cases "forEachTarget rnd 0 (targets s) s")
  have a: "animate rnd s = s1\<lparr> targets := ts \<rparr>" using True r by (simp add: animate_def)
  show ?thesis
    unfolding a using forEachTarget_world [of rnd 0 "targets s" s] r True by simp
qed

lemma some_collision:
  "(\<exists>jt \<in> set (enumerate i ts). reportsCollision s rnd jt) \<longleftrightarrow> 0 < collisionAlerts s rnd i ts"
  by (simp add: collisionAlerts_def filter_empty_conv)

lemma near_collides:
  assumes "distanceTo (position t) (Vector3 0 0 0) = 3" and "speed t = 5 / 100"
    and "vz (position t) < 0" and "collisionDistance (levelConfig t) = 3"
  shows "checkCollision (update (Vector3 0 0 0) lc d t) (Vector3 0 0 0)"
proof -
  let ?c = "Vector3 0 0 0"
  have dist: "distanceTo (moved ?c t) ?c = 295 / 100"
    using moved_distance [of t ?c] assms(1,2) by simp
  have "approach ?c t = 1 - (5 / 100) / 3" using assms(1,2) by (simp add: approach_def)
  then have "vz (moved ?c t) = vz (position t) * (295 / 300)"
    using moved_vz [of ?c t] by simp
  then have "vz (moved ?c t) < 0" using assms(3) by simp
  then have no: "\<not> respawnCondition (moved ?c t) ?c"
    using dist by (simp add: respawnCondition_def)
  show ?thesis
    using update_moved [OF no, of lc d] dist assms(4)
    by (simp add: checkCollision_def update_levelConfig)
qed

lemma closing_fields:
  "isPlaying closing \<and> score closing = 0 \<and> timeouts closing = [] \<and> alerts closing = []
   \<and> currentLevel closing = beginner \<and> camera_position closing = Vector3 0 0 0
   \<and> targets closing = [nearTarget 0 (Vector3 0 (15 / 13) (- (36 / 13))),
                         nearTarget 1 (Vector3 (9 / 13) (12 / 13) (- (36 / 13)))]"
  using aimed_fields by (simp add: closing_def)

lemma closing_collisions:
  "reportsCollision closing rnd (0, nearTarget 0 (Vector3 0 (15 / 13) (- (36 / 13))))
   \<and> reportsCollision closing rnd (1, nearTarget 1 (Vector3 (9 / 13) (12 / 13) (- (36 / 13))))"
proof -
  have "checkCollision (update (Vector3 0 0 0) lc d (nearTarget m (Vector3 0 (15 / 13) (- (36 / 13)))))
          (Vector3 0 0 0)" for lc d m
    by (rule near_collides) (simp_all add: nearTarget_def distanceTo_def sqrt_9 beginner_def)
  moreover have "checkCollision (update (Vector3 0 0 0) lc d (nearTarget m (Vector3 (9 / 13) (12 / 13) (- (36 / 13)))))
          (Vector3 0 0 0)" for lc d m
    by (rule near_collides) (simp_all add: nearTarget_def distanceTo_def sqrt_9 beginner_def)
  ultimately show ?thesis
    by (simp add: reportsCollision_def advance_def closing_fields)
qed

lemma closing_alerts: "collisionAlerts closing rnd 0 (targets closing) = 2"
  using closing_collisions [of rnd] by (simp add: collisionAlerts_def closing_fields)

text \<open>
  C6. In a frame of a playing match in which some target reports a collision after its
  move, the match stops playing and the score stays as it was; \<open>handleCollision\<close> has
  scheduled its alert, and when that timeout fires the alert shows the score the match
  ended with and the name of the level, and the level selector is shown again.
\<close>

theorem collision_ends_match:
  assumes "isPlaying s"
    and "\<exists>jt \<in> set (enumerate 0 (targets s)). reportsCollision s rnd jt"
  shows "\<not> isPlaying (animate rnd s)
       \<and> score (animate rnd s) = score s
       \<and> length (timeouts s) < length (timeouts (animate rnd s))
       \<and> timeouts (animate rnd s) ! length (timeouts s) = (500, GameOverAlert HitByTarget)
       \<and> alerts (step (Timeout (length (timeouts s)) d) (animate rnd s))
           = alerts s @ [Alert HitByTarget (score s) (name (currentLevel s))]
       \<and> levelSelectorShown (step (Timeout (length (timeouts s)) d) (animate rnd s))"
proof -
  let ?n = "collisionAlerts s rnd 0 (targets s)"
  have n: "0 < ?n" using assms(2) by (simp add: some_collision)
  then obtain k where k: "?n = Suc k" by (cases ?n) simp_all
  note f = animate_fields [OF assms(1), of rnd]
  have t: "timeouts (animate rnd s)
           = timeouts s @ (500, GameOverAlert HitByTarget) # replicate k (500, GameOverAlert HitByTarget)"
    using f k by simp
  show ?thesis
    using f n t by (simp add: step_def fireTimeout_def nth_append)
qed

text \<open>
  The match with two targets three units away: the frame ends it with the score still 0,
  and the alert reads score 0, level Beginner.
\<close>

theorem collision_ends_match_witness:
  "isPlaying closing
   \<and> reportsCollision closing centred (0, targets closing ! 0)
   \<and> \<not> isPlaying (animate centred closing)
   \<and> score (animate centred closing) = 0
   \<and> alerts (step (Timeout 0 (0, 0, 0)) (animate centred closing))
       = [Alert HitByTarget 0 ''Beginner'']"
proof -
  have c: "reportsCollision closing centred (0, targets closing ! 0)"
    using closing_collisions [of centred] by (simp add: closing_fields)
  then have "\<exists>jt \<in> set (enumerate 0 (targets closing)). reportsCollision closing centred jt"
    by (simp add: closing_fields)
  from collision_ends_match [OF _ this, of "(0, 0, 0)"] c closing_fields
  show ?thesis by (simp add: beginner_def)
qed

text \<open>
  C10. A frame of a playing match moves every target of the list, whether or not an
  earlier target of the same frame collided, and \<open>handleCollision\<close> schedules one alert for
  each target that reports a collision after its move. There is a playing state with two
  targets in which it runs twice in one frame.
\<close>

theorem frame_handles_every_target:
  assumes "isPlaying s"
  shows "map position (targets (animate rnd s))
           = map (position \<circ> advance s rnd) (enumerate 0 (targets s))
       \<and> timeouts (animate rnd s)
           = timeouts s @ replicate (collisionAlerts s rnd 0 (targets s))
                            (500, GameOverAlert HitByTarget)
       \<and> (\<exists>u. isPlaying u \<and> length (targets u) = 2
              \<and> timeouts (animate rnd u)
                  = timeouts u @ [(500, GameOverAlert HitByTarget),
                                  (500, GameOverAlert HitByTarget)])"
proof -
  have "timeouts (animate rnd closing)
          = timeouts closing @ [(500, GameOverAlert HitByTarget), (500, GameOverAlert HitByTarget)]"
    using animate_fields [of closing rnd] closing_fields closing_alerts [of rnd]
    by (simp add: numeral_2_eq_2)
  then have "\<exists>u. isPlaying u \<and> length (targets u) = 2
              \<and> timeouts (animate rnd u)
                  = timeouts u @ [(500, GameOverAlert HitByTarget),
                                  (500, GameOverAlert HitByTarget)]"
    using closing_fields by (intro exI [of _ closing]) simp
  then show ?thesis using animate_fields [OF assms, of rnd] by simp
qed

text \<open>
  In the match with two targets three units away, both targets are moved and both
  collisions are handled in the one frame.
\<close>

theorem frame_handles_every_target_witness:
  "isPlaying closing
   \<and> collisionAlerts closing centred 0 (targets closing) = 2
   \<and> map position (targets (animate centred closing))
       = [position (advance closing centred (0, targets closing ! 0)),
          position (advance closing centred (1, targets closing ! 1))]
   \<and> timeouts (animate centred closing)
       = [(500, GameOverAlert HitByTarget), (500, GameOverAlert HitByTarget)]"
  using frame_handles_every_target [of closing centred] closing_fields
    closing_alerts [of centred]
  by (simp add: numeral_2_eq_2)

section \<open>What single events change\<close>

lemma pointerUnlock_frame:
  "score (pointerUnlock s) = score s \<and> timeLeft (pointerUnlock s) = timeLeft s
   \<and> matchTimers (pointerUnlock s) = matchTimers s
   \<and> countdownIntervals (pointerUnlock s) = countdownIntervals s
   \<and> timeouts (pointerUnlock s) = timeouts s
   \<and> \<not> isPlaying (pointerUnlock s) \<and> \<not> isLocked (pointerUnlock s)"
  by (simp add: pointerUnlock_def Let_def)

lemma countdownTick_frame:
  "score (countdownTick i s) = score s \<and> timeLeft (countdownTick i s) = timeLeft s
   \<and> matchTimers (countdownTick i s) = matchTimers s
   \<and> timeouts (countdownTick i s) = timeouts s
   \<and> (isPlaying (countdownTick i s) \<and> \<not> isPlaying s \<longrightarrow> countdown (countdownTick i s) \<le> 0)"
  by (simp add: countdownTick_def Let_def)




lemma step_score:
  assumes "\<forall>lc rnd. e \<noteq> SelectLevel lc rnd"
  shows "score (step e s) = score s
       \<or> isPlaying s \<and> isLocked s \<and> (\<exists>m ms. e = Click (m # ms)) \<and> score (step e s) = score s + 1"
proof (cases e)
  case (SelectLevel lc rnd)
  with assms show ?thesis by simp
next
  case (Click xs)
  then show ?thesis
    using click_frame [of xs s] by (cases xs) (auto simp add: step_def)
qed (simp_all add: step_def pointerLock_def pointerUnlock_frame countdownTick_frame
      updateTimer_frame animate_frame fireTimeout_frame)

lemma step_timeLeft:
  assumes "\<forall>lc rnd. e \<noteq> SelectLevel lc rnd"
  shows "timeLeft (step e s) = timeLeft s
       \<or> isPlaying s \<and> e = TimerTick \<and> timeLeft (step e s) = timeLeft s - 1"
proof (cases e)
  case (SelectLevel lc rnd)
  with assms show ?thesis by simp
next
  case TimerTick
  then show ?thesis
    by (cases "isPlaying s") (simp_all add: step_def updateTimer_idle updateTimer_playing)
qed (simp_all add: step_def pointerLock_def pointerUnlock_frame countdownTick_frame
      animate_frame fireTimeout_frame click_frame)

lemma step_activates:
  assumes "isPlaying (step e s)" and "\<not> isPlaying s"
  shows "(\<exists>j. e = CountdownTick j) \<and> countdown (step e s) \<le> 0"
proof (cases e)
  case (CountdownTick j)
  then show ?thesis using assms countdownTick_frame [of j s] by (simp add: step_def)
next
  case (Frame rnd)
  then show ?thesis using assms animate_frame [of rnd s] by (simp add: step_def)
next
  case TimerTick
  then show ?thesis using assms by (simp add: step_def updateTimer_idle split: if_splits)
qed (use assms in \<open>simp_all add: step_def selectLevel_def startCountdown_fields pointerLock_def
      pointerUnlock_frame click_frame fireTimeout_frame split: if_splits\<close>)

text \<open>
  Meshes are created fresh, and no event makes two targets share one: if the meshes of the
  targets are distinct before an event, they are distinct after it.
\<close>

lemma respawnFound_meshes: "map mesh (respawnFound m lc d ts) = map mesh ts"
  by (induction ts) (simp_all add: respawn_def)

lemma animate_meshes: "map mesh (targets (animate rnd s)) = map mesh (targets s)"
proof (cases "isPlaying s")
  case True
  then show ?thesis using animate_fields [of s rnd] by simp
next
  case False
  then show ?thesis by (simp add: animate_def)
qed

lemma click_meshes: "map mesh (targets (click xs s)) = map mesh (targets s)"
  by (cases xs)
     (simp_all add: click_def Let_def playShootSound_frame map_setColor)

lemma step_keeps_meshes_distinct:
  assumes "distinct (map mesh (targets s))"
  shows "distinct (map mesh (targets (step e s)))"
proof (cases e)
  case (SelectLevel lc rnd)
  have "map mesh (targets (startCountdown lc rnd s)) = map (\<lambda>i. nextMesh s + i) [0..<targetCount lc]"
    by (simp add: startCountdown_fields comp_def newTarget_fields)
  then show ?thesis
    using SelectLevel by (simp add: step_def selectLevel_def distinct_map inj_on_def)
next
  case (Frame rnd)
  then show ?thesis using assms by (simp add: step_def animate_meshes)
next
  case (Click xs)
  then show ?thesis using assms by (simp add: step_def click_meshes)
next
  case (Timeout k d)
  then show ?thesis
    using assms
    by (simp add: step_def fireTimeout_def respawnFound_meshes map_setColor
        split: timeout_action.split)
qed (use assms in \<open>simp_all add: step_def pointerLock_def pointerUnlock_def countdownTick_def
      updateTimer_def endGame_def Let_def\<close>)

section \<open>The countdown\<close>

lemma countdownTick_cleared: "i \<notin> set (countdownIntervals s) \<Longrightarrow> countdownTick i s = s"
  by (simp add: countdownTick_def)

lemma countdownTick_fields:
  assumes "countdownIntervals s = [i]"
  shows "countdown (countdownTick i s) = countdown s - 1
       \<and> countdownText (countdownTick i s) = countdown s - 1
       \<and> isPlaying (countdownTick i s) = (isPlaying s \<or> countdown s \<le> 1)
       \<and> countdownIntervals (countdownTick i s) = (if countdown s \<le> 1 then [] else [i])"
  using assms by (auto simp add: countdownTick_def Let_def)

lemma countdownTick_ticks:
  assumes "countdownIntervals s = [i]" and "\<not> isPlaying s" and "int k \<le> countdown s"
    and "1 \<le> countdown s"
  shows "countdown ((countdownTick i ^^ k) s) = countdown s - int k
       \<and> isPlaying ((countdownTick i ^^ k) s) = (int k = countdown s)
       \<and> countdownIntervals ((countdownTick i ^^ k) s) = (if int k = countdown s then [] else [i])"
  using assms(3)
proof (induction k)
  case 0
  then show ?case using assms by auto
next
  case (Suc k)
  let ?u = "(countdownTick i ^^ k) s"
  from Suc have u: "countdown ?u = countdown s - int k" "\<not> isPlaying ?u"
    "countdownIntervals ?u = [i]"
    by auto
  show ?case
    using countdownTick_fields [OF u(3)] u Suc.prems by auto
qed

lemma countdown_completes:
  assumes "\<not> isPlaying s" and "countdownIntervals s = []" and "k \<le> 5"
  shows "countdown ((countdownTick (nextTimerId s) ^^ k) (startCountdown lc rnd s)) = 5 - int k
       \<and> isPlaying ((countdownTick (nextTimerId s) ^^ k) (startCountdown lc rnd s)) = (k = 5)
       \<and> countdownIntervals ((countdownTick (nextTimerId s) ^^ k) (startCountdown lc rnd s))
           = (if k = 5 then [] else [nextTimerId s])"
proof -
  let ?s0 = "startCountdown lc rnd s"
  have s0: "countdownIntervals ?s0 = [nextTimerId s]" "\<not> isPlaying ?s0" "countdown ?s0 = 5"
    using assms startCountdown_fields [of lc rnd s] by simp_all
  show ?thesis
    using countdownTick_ticks [OF s0(1) s0(2), of k] assms(3) s0(3) by auto
qed

text \<open>
  C7. Let a level be selected in a state that is not playing and has no countdown
  interval running. Then the countdown starts at 5 with the match not playing; the
  \<open>k\<close>-th firing of the new interval, for \<open>k\<close> up to 5, leaves the countdown at \<open>5 - k\<close>, so
  that it takes the values 5, 4, 3, 2, 1, 0 in turn; the match is playing exactly from the
  fifth firing on, which also clears the interval, so that later firings change nothing.
  No event other than the firing of a countdown interval that brings the countdown to 0
  or below makes a match that is not playing play.
\<close>

theorem countdown_run:
  assumes "\<not> isPlaying s" and "countdownIntervals s = []"
  shows "countdown (startCountdown lc rnd s) = 5
       \<and> \<not> isPlaying (startCountdown lc rnd s)
       \<and> (\<forall>k\<le>5. countdown ((countdownTick (nextTimerId s) ^^ k) (startCountdown lc rnd s)) = 5 - int k
              \<and> isPlaying ((countdownTick (nextTimerId s) ^^ k) (startCountdown lc rnd s)) = (k = 5)
              \<and> (nextTimerId s \<in> set (countdownIntervals
                    ((countdownTick (nextTimerId s) ^^ k) (startCountdown lc rnd s)))) = (k < 5))
       \<and> (\<forall>k. (countdownTick (nextTimerId s) ^^ (5 + k)) (startCountdown lc rnd s)
              = (countdownTick (nextTimerId s) ^^ 5) (startCountdown lc rnd s))
       \<and> (\<forall>e u. isPlaying (step e u) \<and> \<not> isPlaying u \<longrightarrow>
              (\<exists>j. e = CountdownTick j) \<and> countdown (step e u) \<le> 0)"
proof -
  let ?i = "nextTimerId s" and ?s0 = "startCountdown lc rnd s"
  have s0: "\<not> isPlaying ?s0" "countdown ?s0 = 5"
    using assms startCountdown_fields [of lc rnd s] by simp_all
  note run = countdown_completes [OF assms, of _ lc rnd]
  have stop: "(countdownTick ?i ^^ (5 + k)) ?s0 = (countdownTick ?i ^^ 5) ?s0" for k
  proof (induction k)
    case 0
    show ?case by simp
  next
    case (Suc k)
    have "?i \<notin> set (countdownIntervals ((countdownTick ?i ^^ 5) ?s0))"
      using run [of 5] by simp
    then have fixed: "countdownTick ?i ((countdownTick ?i ^^ 5) ?s0) = (countdownTick ?i ^^ 5) ?s0"
      by (rule countdownTick_cleared)
    have "(countdownTick ?i ^^ (5 + Suc k)) ?s0
          = countdownTick ?i ((countdownTick ?i ^^ (5 + k)) ?s0)"
      by (simp only: add_Suc_right funpow.simps o_apply)
    also have "\<dots> = countdownTick ?i ((countdownTick ?i ^^ 5) ?s0)"
      by (simp only: Suc)
    also note fixed
    finally show ?case .
  qed
  have only: "\<forall>e u. isPlaying (step e u) \<and> \<not> isPlaying u \<longrightarrow>
              (\<exists>j. e = CountdownTick j) \<and> countdown (step e u) \<le> 0"
    using step_activates by blast
  show ?thesis using s0 run stop only by auto
qed

text \<open>
  From the state after loading: the countdown of a beginner match stands at 1 after four
  firings, with the match not yet playing, and at 0 after the fifth, with the match
  playing.
\<close>

theorem countdown_run_witness:
  "\<not> isPlaying initial \<and> countdownIntervals initial = []
   \<and> countdown (startCountdown beginner centred initial) = 5
   \<and> countdown ((countdownTick 0 ^^ 4) (startCountdown beginner centred initial)) = 1
   \<and> \<not> isPlaying ((countdownTick 0 ^^ 4) (startCountdown beginner centred initial))
   \<and> countdown ((countdownTick 0 ^^ 5) (startCountdown beginner centred initial)) = 0
   \<and> isPlaying ((countdownTick 0 ^^ 5) (startCountdown beginner centred initial))"
proof -
  have i: "\<not> isPlaying initial" "countdownIntervals initial = []" "nextTimerId initial = 0"
    by (simp_all add: initial_def)
  from countdown_run [OF i(1) i(2), of beginner centred]
  have "\<forall>k\<le>5. countdown ((countdownTick 0 ^^ k) (startCountdown beginner centred initial)) = 5 - int k
      \<and> isPlaying ((countdownTick 0 ^^ k) (startCountdown beginner centred initial)) = (k = 5)"
    by (simp add: i(3))
  from this [rule_format, of 4] this [rule_format, of 5] i
    countdown_run [OF i(1) i(2), of beginner centred]
  show ?thesis by simp
qed

section \<open>Timers that stay registered\<close>






section \<open>When score and time change\<close>

lemma abandoned_fields:
  "\<not> isPlaying abandoned \<and> score abandoned = 1 \<and> timeLeft abandoned = 90"
  using click_scores [of aimed 0 "[]"] aimed_fields
    pointerUnlock_frame [of "click [0] aimed"]
  by (simp add: abandoned_def run_def step_def)

text \<open>
  C9, as amended. Selecting a level sets the score to 0 and \<open>timeLeft\<close> to the level's
  \<open>gameTime\<close>, in whatever state it happens. Every other event leaves the score as it is or,
  when it is a click with a hit while the match is playing and the pointer is locked,
  raises it by exactly 1; and it leaves \<open>timeLeft\<close> as it is or, when it is a timer tick
  while the match is playing, lowers it by exactly 1.
\<close>

theorem score_and_time_changes:
  "(\<forall>lc rnd. score (step (SelectLevel lc rnd) s) = 0
            \<and> timeLeft (step (SelectLevel lc rnd) s) = gameTime lc)
   \<and> ((\<forall>lc rnd. e \<noteq> SelectLevel lc rnd) \<longrightarrow>
        (score (step e s) = score s
         \<or> isPlaying s \<and> isLocked s \<and> (\<exists>m ms. e = Click (m # ms))
           \<and> score (step e s) = score s + 1)
      \<and> (timeLeft (step e s) = timeLeft s
         \<or> isPlaying s \<and> e = TimerTick \<and> timeLeft (step e s) = timeLeft s - 1))"
  using step_score [of e s] step_timeLeft [of e s]
  by (simp add: step_def selectLevel_def startCountdown_fields)

text \<open>
  In the beginner match a hit with the pointer locked raises the score and a timer tick
  lowers the time; a click with the pointer unlocked and a timer tick after the match was
  abandoned change neither.
\<close>

theorem score_and_time_changes_witness:
  "score (step (Click [0]) aimed) = score aimed + 1
   \<and> score (step (Click [0]) afterCountdown) = score afterCountdown
   \<and> timeLeft (step TimerTick aimed) = timeLeft aimed - 1
   \<and> timeLeft (step TimerTick abandoned) = timeLeft abandoned"
proof -
  have c: "score (step (Click [0]) aimed) = score aimed + 1"
    using click_scores [of aimed 0 "[]"] aimed_fields by (simp add: step_def)
  have t: "timeLeft (step TimerTick aimed) = timeLeft aimed - 1"
    using aimed_fields afterCountdown_fields
    by (simp add: step_def updateTimer_playing aimed_def pointerLock_def)
  have n: "\<not> isPlaying abandoned" "\<not> isLocked afterCountdown"
    using abandoned_fields afterCountdown_fields by simp_all
  show ?thesis
    using score_and_time_changes [of abandoned TimerTick]
      score_and_time_changes [of afterCountdown "Click [0]"] c t n
    by simp
qed

text \<open>
  C9 as stated fails: after one hit the match is abandoned, so it is not playing, with
  score 1 and 90 seconds left; selecting the intermediate level then sets the score to 0
  and the time to 60 while the match is still not playing.
\<close>

theorem reset_counterexample:
  "\<not> isPlaying abandoned \<and> score abandoned = 1 \<and> timeLeft abandoned = 90
   \<and> score (step (SelectLevel intermediate centred) abandoned) = 0
   \<and> timeLeft (step (SelectLevel intermediate centred) abandoned) = 60
   \<and> \<not> isPlaying (step (SelectLevel intermediate centred) abandoned)"
  using abandoned_fields
  by (simp add: step_def selectLevel_def startCountdown_fields) (simp add: intermediate_def)

end
